theory Spec2Isabelle
  imports Main "HOL-Library.Word"
begin

section \<open>The peripheral example of bluez\_inc (examples/peripheral/peripheral.c)\<close>

text \<open>
  The file under verification is the session controller of a BLE peripheral: five global
  pointers, a set of callbacks handed to the binc library and to GLib, the shutdown routine
  \<open>callback\<close> and \<open>main\<close>. The library itself (adapter.c, agent.c, application.c,
  advertisement.c) and GLib are called, not defined, by this file. A call into them is
  recorded, in program order, in the field \<open>calls\<close> of the state; what they hand back
  (a fresh object, the powered flag, the outcome of \<open>fscanf\<close>) is an input of the model.
\<close>

subsection \<open>Data\<close>

text \<open>A C pointer to a library object is an opaque handle; \<open>None\<close> is \<open>NULL\<close>.\<close>

type_synonym ptr = nat

text \<open>
  Modelled from the spec: the enum \<open>ConnectionState\<close> is declared in device.h, not in
  this file. Its four members are the four connection states of a Device (Disconnected,
  Connecting, Connected, Disconnecting); the file names two of them.
\<close>

datatype ConnectionState =
  BINC_DISCONNECTED | BINC_CONNECTED | BINC_CONNECTING | BINC_DISCONNECTING

text \<open>
  Modelled from the spec: \<open>Device\<close> is declared in device.h, not in this file. A remote
  central holds an address, an optional name, a connection state and a bonding flag, and
  \<open>binc_device_get_connection_state\<close> reads the connection state.
\<close>

record Device =
  address :: string
  name :: "string option"
  connection_state :: ConnectionState
  bonded :: bool

definition binc_device_get_connection_state :: "Device \<Rightarrow> ConnectionState" where
  "binc_device_get_connection_state device = connection_state device"

datatype log_level = LOG_DEBUG | LOG_ERROR

text \<open>The functions of this file whose address is handed to the library or to GLib.\<close>

datatype handler =
  H_on_powered_state_changed | H_on_central_state_changed
| H_on_local_char_read | H_on_local_char_write | H_on_local_char_updated
| H_on_local_char_start_notify | H_on_local_char_stop_notify
| H_on_request_authorization | H_on_request_passkey
| H_callback | H_cleanup_handler

text \<open>The constants of the library's headers that \<open>main\<close> passes on.\<close>

datatype io_capability = KEYBOARD_DISPLAY

datatype secondary_channel = BINC_SC_2M

datatype gatt_prop = GATT_CHR_PROP_READ | GATT_CHR_PROP_WRITE | GATT_CHR_PROP_INDICATE

text \<open>
  One constructor for each library, GLib or libc function the file calls on the session's
  objects, with the arguments of the call (a flag word \<open>A | B\<close> is the list of its
  flags). The byte arrays and the pointer array a function builds and frees locally are
  plain lists here, and their \<open>g_byte_array\<close> and \<open>g_ptr_array\<close> calls are not
  recorded. \<open>Pairing_reply_passkey\<close> is the reply the library sends. \<open>Log\<close> is
  \<open>log_debug\<close>/\<open>log_error\<close> with its tag and format string; the values printed for the
  conversions of the format are not recorded. \<open>Log_device\<close> is the line that prints
  \<open>binc_device_to_string(device)\<close>.
\<close>

datatype call =
  Log log_level string string
| Log_device log_level string Device
| G_bus_get_sync
| Signal int handler
| G_main_loop_new
| G_main_loop_run "ptr option"
| G_main_loop_quit "ptr option"
| G_main_loop_unref "ptr option"
| G_timeout_add_seconds nat handler "ptr option"
| G_dbus_connection_close_sync "ptr option"
| G_object_unref "ptr option"
| Binc_adapter_get_default "ptr option"
| Binc_adapter_set_powered_state_cb ptr handler
| Binc_adapter_get_powered_state ptr bool
| Binc_adapter_power_on ptr
| Binc_adapter_set_remote_central_cb ptr handler
| Binc_adapter_start_advertising "ptr option" "ptr option"
| Binc_adapter_stop_advertising "ptr option" "ptr option"
| Binc_adapter_register_application ptr ptr
| Binc_adapter_unregister_application "ptr option" ptr
| Binc_adapter_free ptr
| Binc_agent_create ptr string io_capability
| Binc_agent_set_request_authorization_cb ptr handler
| Binc_agent_set_request_passkey_cb ptr handler
| Binc_agent_free ptr
| Binc_advertisement_create
| Binc_advertisement_set_local_name ptr string
| Binc_advertisement_set_secondary_channel ptr secondary_channel
| Binc_advertisement_set_interval ptr nat nat
| Binc_advertisement_set_tx_power ptr int
| Binc_advertisement_set_services ptr "string list"
| Binc_advertisement_free ptr
| Binc_create_application ptr
| Binc_application_add_service ptr string
| Binc_application_add_characteristic ptr string string "gatt_prop list"
| Binc_application_add_descriptor ptr string string string "gatt_prop list"
| Binc_application_set_desc_value ptr string string string "8 word list"
| Binc_application_set_char_read_cb ptr handler
| Binc_application_set_char_write_cb ptr handler
| Binc_application_set_char_start_notify_cb ptr handler
| Binc_application_set_char_stop_notify_cb ptr handler
| Binc_application_set_char_updated_cb ptr handler
| Binc_application_free ptr
| Pairing_reply_passkey "32 word"

text \<open>
  The globals of the file (lines 41-45), the calls issued so far, and what GLib, the
  library and the operating system remember of the registrations made by \<open>main\<close>:
  whether the loop is running, the timeout source with its interval and user data, and
  which handlers are installed. \<open>killed\<close> is set when a signal with no handler has
  terminated the process.
\<close>

record state =
  loop :: "ptr option"
  default_adapter :: "ptr option"
  advertisement :: "ptr option"
  app :: "ptr option"
  agent :: "ptr option"
  calls :: "call list"
  running :: bool
  timeout_source :: "(nat \<times> ptr option) option"
  sigint_handler :: bool
  powered_state_cb :: bool
  remote_central_cb :: bool
  killed :: bool

definition emit :: "call list \<Rightarrow> state \<Rightarrow> state" where
  "emit cs s = s\<lparr>calls := calls s @ cs\<rparr>"

text \<open>The calls a step has added to the record: those of \<open>s'\<close> after those of \<open>s\<close>.\<close>

definition issued :: "state \<Rightarrow> state \<Rightarrow> call list" where
  "issued s s' = drop (length (calls s)) (calls s')"

subsection \<open>Constants (lines 36-39)\<close>

definition TAG :: string where
  "TAG = ''Main''"

definition HTS_SERVICE_UUID :: string where
  "HTS_SERVICE_UUID = ''00001809-0000-1000-8000-00805f9b34fb''"

definition TEMPERATURE_CHAR_UUID :: string where
  "TEMPERATURE_CHAR_UUID = ''00002a1c-0000-1000-8000-00805f9b34fb''"

definition CUD_CHAR :: string where
  "CUD_CHAR = ''00002901-0000-1000-8000-00805f9b34fb''"

text \<open>
  Modelled from the spec: the macro \<open>BLUEZ_ERROR_REJECTED\<close> is declared in the library's
  headers, not in this file. It is the rejection code (\<open>Rejected\<close>) a read callback
  returns to refuse a request; all that matters here is that it is a string, not \<open>NULL\<close>.
\<close>

definition BLUEZ_ERROR_REJECTED :: string where
  "BLUEZ_ERROR_REJECTED = ''org.bluez.Error.Rejected''"

text \<open>\<open>SIGINT\<close> of signal.h.\<close>

definition SIGINT :: int where
  "SIGINT = 2"

subsection \<open>Adapter callbacks (lines 48-64)\<close>

definition on_powered_state_changed :: "ptr option \<Rightarrow> bool \<Rightarrow> state \<Rightarrow> state" where
  "on_powered_state_changed adapter st s = emit [Log LOG_DEBUG TAG ''powered '%s' (%s)''] s"

definition on_central_state_changed :: "ptr option \<Rightarrow> Device \<Rightarrow> state \<Rightarrow> state" where
  "on_central_state_changed adapter device s0 =
     (let s1 = emit [Log_device LOG_DEBUG TAG device] s0;
          s2 = emit [Log LOG_DEBUG TAG ''remote central %s is %s''] s1;
          st = binc_device_get_connection_state device
      in if st = BINC_CONNECTED then
           emit [Binc_adapter_stop_advertising adapter (advertisement s2)] s2
         else if st = BINC_DISCONNECTED then
           emit [Binc_adapter_start_advertising adapter (advertisement s2)] s2
         else s2)"

fun is_advertising_call :: "call \<Rightarrow> bool" where
  "is_advertising_call (Binc_adapter_start_advertising a v) = True"
| "is_advertising_call (Binc_adapter_stop_advertising a v) = True"
| "is_advertising_call c = False"

subsection \<open>The local characteristic read callback (lines 68-79)\<close>

text \<open>
  Modelled from the spec: the attribute tree of an Application lives in application.c. Of
  it the read callback needs the stored value of each characteristic, keyed by the pair
  (service UUID, characteristic UUID); a pair outside the domain is a characteristic the
  application does not have.
\<close>

record Application =
  char_value :: "string \<times> string \<rightharpoonup> 8 word list"

datatype app_error = UnknownCharacteristic

text \<open>
  Modelled from the spec: \<open>binc_application_set_char_value\<close> (application.c) sets the
  stored value directly and fails with \<open>UnknownCharacteristic\<close> when the application has
  no such characteristic.
\<close>

definition binc_application_set_char_value ::
    "Application \<Rightarrow> string \<Rightarrow> string \<Rightarrow> 8 word list \<Rightarrow> app_error + Application" where
  "binc_application_set_char_value application service_uuid char_uuid byteArray =
     (if (service_uuid, char_uuid) \<in> dom (char_value application)
      then Inr (application\<lparr>char_value :=
                  (char_value application)((service_uuid, char_uuid) \<mapsto> byteArray)\<rparr>)
      else Inl UnknownCharacteristic)"

text \<open>The thirteen bytes of line 71.\<close>

definition read_bytes :: "8 word list" where
  "read_bytes = [0x06, 0x6f, 0x01, 0x00, 0xff, 0xe6, 0x07, 0x03, 0x03, 0x10, 0x04, 0x00, 0x01]"

text \<open>
  \<open>on_local_char_read\<close> returns \<open>NULL\<close> (\<open>None\<close>) to let the read proceed or an error
  name to refuse it. \<open>g_str_equal\<close> compares the two strings byte for byte. The result of
  \<open>binc_application_set_char_value\<close> is dropped, as line 74 drops it: on an error the
  application is left as it was.
\<close>

definition on_local_char_read ::
    "Application \<Rightarrow> string \<Rightarrow> string \<Rightarrow> string \<Rightarrow> 16 word \<Rightarrow> 16 word
       \<Rightarrow> string option \<times> Application" where
  "on_local_char_read application addr service_uuid char_uuid mtu offset =
     (if service_uuid = HTS_SERVICE_UUID \<and> char_uuid = TEMPERATURE_CHAR_UUID then
        (let byteArray = read_bytes
         in (case binc_application_set_char_value application service_uuid char_uuid byteArray of
               Inr application' \<Rightarrow> (None, application')
             | Inl err \<Rightarrow> (None, application)))
      else (Some BLUEZ_ERROR_REJECTED, application))"

text \<open>
  Modelled from the spec: serving a read request (application.c). The read callback is
  asked first; when it refuses, the request is answered with its error and nothing else
  happens; otherwise the stored value of the characteristic is what the central reads.
\<close>

definition read_request ::
    "Application \<Rightarrow> string \<Rightarrow> string \<Rightarrow> string \<Rightarrow> 16 word \<Rightarrow> 16 word
       \<Rightarrow> (string + 8 word list option) \<times> Application" where
  "read_request application addr service_uuid char_uuid mtu offset =
     (case on_local_char_read application addr service_uuid char_uuid mtu offset of
        (Some err, application') \<Rightarrow> (Inl err, application')
      | (None, application') \<Rightarrow>
          (Inr (char_value application' (service_uuid, char_uuid)), application'))"

subsection \<open>Agent callbacks (lines 114-128)\<close>

definition on_request_authorization :: "Device \<Rightarrow> state \<Rightarrow> bool \<times> state" where
  "on_request_authorization device s =
     (True, emit [Log LOG_DEBUG TAG ''requesting authorization for '%s''] s)"

text \<open>
  What \<open>fscanf(stdin, "%d", &pass)\<close> finds on standard input: a decimal integer, which it
  stores (the 32 bits of the C int, read back through the \<open>guint32\<close>), text that is no
  integer, or the end of the input. It returns the number of conversions made, or \<open>EOF\<close>
  (-1), and stores nothing unless it converted.
\<close>

datatype scan_input = Converted "32 word" | Matching_failure | Input_failure

fun fscanf_d :: "scan_input \<Rightarrow> 32 word \<Rightarrow> int \<times> 32 word" where
  "fscanf_d (Converted w) old = (1, w)"
| "fscanf_d Matching_failure old = (0, old)"
| "fscanf_d Input_failure old = (- 1, old)"

definition on_request_passkey :: "Device \<Rightarrow> scan_input \<Rightarrow> state \<Rightarrow> 32 word \<times> state" where
  "on_request_passkey device stdin s0 =
     (let pass0 = 0;
          s1 = emit [Log LOG_DEBUG TAG ''requesting passkey for '%s''] s0;
          s2 = emit [Log LOG_DEBUG TAG ''Enter 6 digit pin code: ''] s1;
          (result, pass) = fscanf_d stdin pass0;
          s3 = (if result \<noteq> 1 then emit [Log LOG_DEBUG TAG ''didn't read a pin code''] s2
                else s2)
      in (pass, s3))"

text \<open>
  Modelled from the spec: the agent's handling of a passkey request (agent.c). The value
  the registered callback returns is the value of the reply to the pairing RPC.
\<close>

definition agent_request_passkey :: "Device \<Rightarrow> scan_input \<Rightarrow> state \<Rightarrow> state" where
  "agent_request_passkey device stdin s =
     (let (pass, s') = on_request_passkey device stdin s
      in emit [Pairing_reply_passkey pass] s')"

subsection \<open>Shutdown (lines 130-161)\<close>

text \<open>
  \<open>g_main_loop_quit\<close> of GLib: on \<open>NULL\<close> it returns at once; on the session's loop it
  clears the flag \<open>g_main_loop_run\<close> tests.
\<close>

definition g_main_loop_quit :: "ptr option \<Rightarrow> state \<Rightarrow> state" where
  "g_main_loop_quit l s =
     (let s' = emit [G_main_loop_quit l] s
      in if l \<noteq> None \<and> l = loop s then s'\<lparr>running := False\<rparr> else s')"

text \<open>
  \<open>callback\<close>, with its four guarded blocks in the order of the source. The first, second
  and fourth clear their global after the free; the third (lines 142-145) does not.
\<close>

definition callback :: "ptr option \<Rightarrow> state \<Rightarrow> bool \<times> state" where
  "callback data s0 =
     (let s1 = (case agent s0 of
                  Some a \<Rightarrow> (emit [Binc_agent_free a] s0)\<lparr>agent := None\<rparr>
                | None \<Rightarrow> s0);
          s2 = (case app s1 of
                  Some p \<Rightarrow>
                    (emit [Binc_adapter_unregister_application (default_adapter s1) p,
                           Binc_application_free p] s1)\<lparr>app := None\<rparr>
                | None \<Rightarrow> s1);
          s3 = (case advertisement s2 of
                  Some v \<Rightarrow>
                    emit [Binc_adapter_stop_advertising (default_adapter s2) (Some v),
                          Binc_advertisement_free v] s2
                | None \<Rightarrow> s2);
          s4 = (case default_adapter s3 of
                  Some d \<Rightarrow> (emit [Binc_adapter_free d] s3)\<lparr>default_adapter := None\<rparr>
                | None \<Rightarrow> s3)
      in (False, g_main_loop_quit data s4))"

definition cleanup_handler :: "int \<Rightarrow> state \<Rightarrow> state" where
  "cleanup_handler signo s =
     (if signo = SIGINT then
        snd (callback (loop s) (emit [Log LOG_ERROR TAG ''received SIGINT''] s))
      else s)"

text \<open>The place of each teardown call in the shutdown sequence; 7 for any other call.\<close>

fun teardown_rank :: "call \<Rightarrow> nat" where
  "teardown_rank (Binc_agent_free a) = 0"
| "teardown_rank (Binc_adapter_unregister_application d p) = 1"
| "teardown_rank (Binc_application_free p) = 2"
| "teardown_rank (Binc_adapter_stop_advertising d v) = 3"
| "teardown_rank (Binc_advertisement_free v) = 4"
| "teardown_rank (Binc_adapter_free d) = 5"
| "teardown_rank (G_main_loop_quit l) = 6"
| "teardown_rank c = 7"

fun is_log :: "call \<Rightarrow> bool" where
  "is_log (Log l t m) = True"
| "is_log (Log_device l t d) = True"
| "is_log c = False"

text \<open>The objects handed to one of the library's free functions, in order.\<close>

fun freed_by :: "call \<Rightarrow> ptr list" where
  "freed_by (Binc_agent_free a) = [a]"
| "freed_by (Binc_application_free p) = [p]"
| "freed_by (Binc_advertisement_free v) = [v]"
| "freed_by (Binc_adapter_free d) = [d]"
| "freed_by c = []"

definition freed :: "call list \<Rightarrow> ptr list" where
  "freed cs = concat (map freed_by cs)"

text \<open>The globals and the loop flag: the session's state without its history.\<close>

definition globals :: "state \<Rightarrow> ptr option \<times> ptr option \<times> ptr option \<times> ptr option \<times> ptr option \<times> bool" where
  "globals s = (loop s, default_adapter s, advertisement s, app s, agent s, running s)"

subsection \<open>main (lines 163-250)\<close>

text \<open>
  What the environment hands to \<open>main\<close>: the D-Bus connection (\<open>NULL\<close> on failure),
  whether \<open>signal\<close> succeeded, the new main loop, the default adapter (\<open>NULL\<close> when there
  is none), the powered flag the adapter reports, and the objects the library creates.
\<close>

record env =
  dbus_connection :: "ptr option"
  signal_ok :: bool
  new_loop :: ptr
  adapter_default :: "ptr option"
  powered :: bool
  new_agent :: ptr
  new_advertisement :: ptr
  new_application :: ptr

definition initial :: state where
  "initial = \<lparr>loop = None, default_adapter = None, advertisement = None, app = None,
     agent = None, calls = [], running = False, timeout_source = None,
     sigint_handler = False, powered_state_cb = False, remote_central_cb = False,
     killed = False\<rparr>"

text \<open>The bytes of \<open>"hello there"\<close> with the terminating zero (\<open>sizeof(cud)\<close> is 12).\<close>

definition cud :: "8 word list" where
  "cud = [0x68, 0x65, 0x6c, 0x6c, 0x6f, 0x20, 0x74, 0x68, 0x65, 0x72, 0x65, 0x00]"

text \<open>Lines 178-232: the branch taken when an adapter was found.\<close>

definition setup_peripheral :: "env \<Rightarrow> ptr \<Rightarrow> state \<Rightarrow> state" where
  "setup_peripheral e ad s0 =
     (let s1 = emit [Log LOG_DEBUG TAG (''using default_adapter '%s'' @ [CHR 0x27])] s0;
          s2 = (emit [Binc_adapter_set_powered_state_cb ad H_on_powered_state_changed] s1)
                 \<lparr>powered_state_cb := True\<rparr>;
          s3 = emit [Binc_adapter_get_powered_state ad (powered e)] s2;
          s4 = (if \<not> powered e then emit [Binc_adapter_power_on ad] s3 else s3);
          ag = new_agent e;
          s5 = (emit [Binc_agent_create ad ''/org/bluez/BincAgent'' KEYBOARD_DISPLAY] s4)
                 \<lparr>agent := Some ag\<rparr>;
          s6 = emit [Binc_agent_set_request_authorization_cb ag H_on_request_authorization,
                     Binc_agent_set_request_passkey_cb ag H_on_request_passkey] s5;
          s7 = (emit [Binc_adapter_set_remote_central_cb ad H_on_central_state_changed] s6)
                 \<lparr>remote_central_cb := True\<rparr>;
          adv_service_uuids = [HTS_SERVICE_UUID];
          adv = new_advertisement e;
          s8 = (emit [Binc_advertisement_create] s7)\<lparr>advertisement := Some adv\<rparr>;
          s9 = emit [Binc_advertisement_set_local_name adv ''BINC'',
                     Binc_advertisement_set_secondary_channel adv BINC_SC_2M,
                     Binc_advertisement_set_interval adv 500 500,
                     Binc_advertisement_set_tx_power adv 5,
                     Binc_advertisement_set_services adv adv_service_uuids,
                     Binc_adapter_start_advertising (Some ad) (Some adv)] s8;
          ap = new_application e;
          s10 = (emit [Binc_create_application ad] s9)\<lparr>app := Some ap\<rparr>;
          s11 = emit [Binc_application_add_service ap HTS_SERVICE_UUID,
                      Binc_application_add_characteristic ap HTS_SERVICE_UUID
                        TEMPERATURE_CHAR_UUID [GATT_CHR_PROP_INDICATE, GATT_CHR_PROP_WRITE],
                      Binc_application_add_descriptor ap HTS_SERVICE_UUID
                        TEMPERATURE_CHAR_UUID CUD_CHAR [GATT_CHR_PROP_READ, GATT_CHR_PROP_WRITE],
                      Binc_application_set_desc_value ap HTS_SERVICE_UUID
                        TEMPERATURE_CHAR_UUID CUD_CHAR cud] s10;
          s12 = emit [Binc_application_set_char_read_cb ap H_on_local_char_read,
                      Binc_application_set_char_write_cb ap H_on_local_char_write,
                      Binc_application_set_char_start_notify_cb ap H_on_local_char_start_notify,
                      Binc_application_set_char_stop_notify_cb ap H_on_local_char_stop_notify,
                      Binc_application_set_char_updated_cb ap H_on_local_char_updated] s11
      in emit [Binc_adapter_register_application ad ap] s12)"

text \<open>Lines 165-238: everything \<open>main\<close> does before it enters the loop.\<close>

definition main_startup :: "env \<Rightarrow> state" where
  "main_startup e =
     (let s1 = emit [G_bus_get_sync] initial;
          s2 = emit [Signal SIGINT H_cleanup_handler] s1;
          s3 = (if signal_ok e then s2\<lparr>sigint_handler := True\<rparr>
                else emit [Log LOG_ERROR TAG ''can't catch SIGINT''] s2);
          s4 = (emit [G_main_loop_new] s3)\<lparr>loop := Some (new_loop e)\<rparr>;
          s5 = (emit [Binc_adapter_get_default (dbus_connection e)] s4)
                 \<lparr>default_adapter := adapter_default e\<rparr>;
          s6 = (case default_adapter s5 of
                  Some ad \<Rightarrow> setup_peripheral e ad s5
                | None \<Rightarrow> emit [Log LOG_DEBUG ''MAIN'' ''No default_adapter found''] s5)
      in (emit [G_timeout_add_seconds 600 H_callback (loop s6)] s6)
           \<lparr>timeout_source := Some (600, loop s6)\<rparr>)"

text \<open>
  What reaches the program while the loop runs: the timeout source fires, \<open>SIGINT\<close> is
  raised, or the library reports a change of a central or of the powered flag. \<open>SIGINT\<close>
  is the one signal the file names; it is taken here between two events of the loop, and
  its handler runs to its end.
\<close>

datatype event =
  Timeout_fired
| Sigint_raised
| Central_state_changed "ptr option" Device
| Powered_state_changed "ptr option" bool

text \<open>
  An event goes to the handler registered for it, if there is one. GLib removes a timeout
  source whose function returns \<open>FALSE\<close>. \<open>SIGINT\<close> goes to \<open>cleanup_handler\<close> when
  \<open>signal\<close> installed it (line 168); when it did not, the default action of the signal
  terminates the process.
\<close>

fun dispatch :: "event \<Rightarrow> state \<Rightarrow> state" where
  "dispatch Timeout_fired s =
     (case timeout_source s of
        None \<Rightarrow> s
      | Some (secs, data) \<Rightarrow>
          (let (again, s') = callback data s
           in if again then s' else s'\<lparr>timeout_source := None\<rparr>))"
| "dispatch Sigint_raised s =
     (if sigint_handler s then cleanup_handler SIGINT s else s\<lparr>killed := True\<rparr>)"
| "dispatch (Central_state_changed adapter device) s =
     (if remote_central_cb s then on_central_state_changed adapter device s else s)"
| "dispatch (Powered_state_changed adapter st) s =
     (if powered_state_cb s then on_powered_state_changed adapter st s else s)"

text \<open>
  \<open>g_main_loop_run\<close>: set the flag, then take the events one by one for as long as the
  flag stays set and the process lives. When the events run out with the flag still set,
  the loop is waiting.
\<close>

fun run_loop :: "event list \<Rightarrow> state \<Rightarrow> state" where
  "run_loop [] s = s"
| "run_loop (ev # evs) s =
     (if running s \<and> \<not> killed s then run_loop evs (dispatch ev s) else s)"

definition g_main_loop_run :: "event list \<Rightarrow> state \<Rightarrow> state" where
  "g_main_loop_run evs s = run_loop evs ((emit [G_main_loop_run (loop s)] s)\<lparr>running := True\<rparr>)"

text \<open>
  The whole of \<open>main\<close> on the events \<open>evs\<close>: it has returned its exit code, it is
  still inside \<open>g_main_loop_run\<close>, or the process was terminated by a signal inside the
  loop. \<open>has_exited\<close> says that \<open>main\<close> has returned.
\<close>

datatype outcome = Exited int state | Waiting state | Killed state

definition main :: "env \<Rightarrow> event list \<Rightarrow> outcome" where
  "main e evs =
     (let s1 = main_startup e;
          s2 = g_main_loop_run evs s1
      in if killed s2 then Killed s2
         else if running s2 then Waiting s2
         else Exited 0 (emit [G_main_loop_unref (loop s2),
                              G_dbus_connection_close_sync (dbus_connection e),
                              G_object_unref (dbus_connection e)] s2))"

fun final_state :: "outcome \<Rightarrow> state" where
  "final_state (Exited code s) = s"
| "final_state (Waiting s) = s"
| "final_state (Killed s) = s"

fun has_exited :: "outcome \<Rightarrow> bool" where
  "has_exited (Exited code s) = True"
| "has_exited (Waiting s) = False"
| "has_exited (Killed s) = False"

text \<open>The two events that end the session: the timeout and \<open>SIGINT\<close>.\<close>

fun is_shutdown_event :: "event \<Rightarrow> bool" where
  "is_shutdown_event Timeout_fired = True"
| "is_shutdown_event Sigint_raised = True"
| "is_shutdown_event ev = False"




fun is_create_call :: "call \<Rightarrow> bool" where
  "is_create_call (Binc_agent_create ad p c) = True"
| "is_create_call Binc_advertisement_create = True"
| "is_create_call (Binc_create_application ad) = True"
| "is_create_call c = False"

subsection \<open>Example inputs\<close>

definition central_1 :: Device where
  "central_1 = \<lparr>address = ''AA:BB:CC:DD:EE:FF'', name = Some ''central-1'',
     connection_state = BINC_CONNECTED, bonded = False\<rparr>"

text \<open>An environment with a powered adapter, one with an unpowered one, one with none.\<close>

definition env_powered :: env where
  "env_powered = \<lparr>dbus_connection = Some 1, signal_ok = True, new_loop = 2,
     adapter_default = Some 3, powered = True, new_agent = 4, new_advertisement = 5,
     new_application = 6\<rparr>"


definition env_no_adapter :: env where
  "env_no_adapter = env_powered\<lparr>adapter_default := None\<rparr>"

text \<open>An application with the temperature characteristic of the thermometer service.\<close>

definition hts_application :: Application where
  "hts_application = \<lparr>char_value = [(HTS_SERVICE_UUID, TEMPERATURE_CHAR_UUID) \<mapsto> []]\<rparr>"

text \<open>The same application once \<open>[0x01, 0x02]\<close> has been stored in the characteristic.\<close>

definition written_application :: Application where
  "written_application =
     \<lparr>char_value = [(HTS_SERVICE_UUID, TEMPERATURE_CHAR_UUID) \<mapsto> [0x01, 0x02]]\<rparr>"

text \<open>
  The session after \<open>main\<close> has set up the peripheral, after one run of \<open>callback\<close> on
  it, and after a second run.
\<close>

definition started :: state where
  "started = main_startup env_powered"

definition shut_once :: state where
  "shut_once = snd (callback (loop started) started)"

definition shut_twice :: state where
  "shut_twice = snd (callback (loop shut_once) shut_once)"

text \<open>The same session inside \<open>g_main_loop_run\<close>, before any event.\<close>

definition looping :: state where
  "looping = (emit [G_main_loop_run (loop started)] started)\<lparr>running := True\<rparr>"

section \<open>Properties\<close>

subsection \<open>What callback does to the state\<close>

lemma emit_fields:
  "calls (emit cs s) = calls s @ cs"
  "loop (emit cs s) = loop s"
  "agent (emit cs s) = agent s"
  "app (emit cs s) = app s"
  "advertisement (emit cs s) = advertisement s"
  "default_adapter (emit cs s) = default_adapter s"
  "running (emit cs s) = running s"
  "killed (emit cs s) = killed s"
  "timeout_source (emit cs s) = timeout_source s"
  "sigint_handler (emit cs s) = sigint_handler s"
  by (simp_all add: emit_def)

lemma callback_calls:
  "calls (snd (callback d s)) = calls s
     @ (case agent s of Some a \<Rightarrow> [Binc_agent_free a] | None \<Rightarrow> [])
     @ (case app s of
          Some p \<Rightarrow> [Binc_adapter_unregister_application (default_adapter s) p,
                     Binc_application_free p]
        | None \<Rightarrow> [])
     @ (case advertisement s of
          Some v \<Rightarrow> [Binc_adapter_stop_advertising (default_adapter s) (Some v),
                     Binc_advertisement_free v]
        | None \<Rightarrow> [])
     @ (case default_adapter s of Some x \<Rightarrow> [Binc_adapter_free x] | None \<Rightarrow> [])
     @ [G_main_loop_quit d]"
  by (simp add: callback_def g_main_loop_quit_def emit_def Let_def split: option.splits)

lemma callback_fst: "fst (callback d s) = False"
  by (simp add: callback_def Let_def)

lemma callback_fields:
  "loop (snd (callback d s)) = loop s"
  "agent (snd (callback d s)) = None"
  "app (snd (callback d s)) = None"
  "advertisement (snd (callback d s)) = advertisement s"
  "default_adapter (snd (callback d s)) = None"
  "running (snd (callback d s)) = (if d \<noteq> None \<and> d = loop s then False else running s)"
  "timeout_source (snd (callback d s)) = timeout_source s"
  "sigint_handler (snd (callback d s)) = sigint_handler s"
  "killed (snd (callback d s)) = killed s"
  by (auto simp add: callback_def g_main_loop_quit_def emit_def Let_def split: option.splits)

lemma dispatch_timeout:
  "timeout_source s = Some (n, d) \<Longrightarrow>
     dispatch Timeout_fired s = (snd (callback d s))\<lparr>timeout_source := None\<rparr>"
  using callback_fst [of d s] by (simp add: split_beta)

lemma dispatch_sigint:
  "sigint_handler s \<Longrightarrow> dispatch Sigint_raised s =
     snd (callback (loop s) (emit [Log LOG_ERROR TAG ''received SIGINT''] s))"
  by (simp add: cleanup_handler_def)

lemma callback_issued:
  "issued s (snd (callback d s)) =
     (case agent s of Some a \<Rightarrow> [Binc_agent_free a] | None \<Rightarrow> [])
     @ (case app s of
          Some p \<Rightarrow> [Binc_adapter_unregister_application (default_adapter s) p,
                     Binc_application_free p]
        | None \<Rightarrow> [])
     @ (case advertisement s of
          Some v \<Rightarrow> [Binc_adapter_stop_advertising (default_adapter s) (Some v),
                     Binc_advertisement_free v]
        | None \<Rightarrow> [])
     @ (case default_adapter s of Some x \<Rightarrow> [Binc_adapter_free x] | None \<Rightarrow> [])
     @ [G_main_loop_quit d]"
  by (simp add: issued_def callback_calls)

text \<open>A log line before \<open>callback\<close> changes nothing but the record of calls.\<close>

lemma callback_after_emit:
  "snd (callback d (emit cs s)) =
     (snd (callback d s))\<lparr>calls := calls s @ cs @ issued s (snd (callback d s))\<rparr>"
  unfolding callback_issued
  by (cases "agent s"; cases "app s"; cases "advertisement s"; cases "default_adapter s")
     (auto simp add: callback_def g_main_loop_quit_def emit_def Let_def)



text \<open>A loop that has stopped, or a process that was terminated, takes no more events.\<close>

lemma run_loop_stopped: "\<not> running s \<or> killed s \<Longrightarrow> run_loop evs s = s"
  by (cases evs) auto

text \<open>
  With no central callback and no power-state callback installed, every event but the
  timeout and \<open>SIGINT\<close> leaves the state as it is, so the loop goes on to the first of
  those two.
\<close>

lemma dispatch_idle:
  "\<not> remote_central_cb s \<Longrightarrow> \<not> powered_state_cb s \<Longrightarrow> \<not> is_shutdown_event ev
     \<Longrightarrow> dispatch ev s = s"
  by (cases ev) simp_all

lemma run_loop_idle:
  "\<not> remote_central_cb s \<Longrightarrow> \<not> powered_state_cb s \<Longrightarrow>
     run_loop evs s = run_loop (dropWhile (\<lambda>ev. \<not> is_shutdown_event ev) evs) s"
proof (induction evs)
  case Nil
  show ?case by simp
next
  case (Cons ev evs)
  show ?case
  proof (cases "is_shutdown_event ev")
    case True
    then show ?thesis by simp
  next
    case False
    show ?thesis
    proof (cases "running s \<and> \<not> killed s")
      case True
      with False Cons show ?thesis by (simp add: dispatch_idle)
    next
      case stopped: False
      then have "\<not> running s \<or> killed s" by blast
      then show ?thesis by (simp only: run_loop_stopped)
    qed
  qed
qed

subsection \<open>What main has set up when it enters the loop\<close>

lemma startup_fields:
  "loop (main_startup e) = Some (new_loop e)"
  "timeout_source (main_startup e) = Some (600, Some (new_loop e))"
  "sigint_handler (main_startup e) = signal_ok e"
  "running (main_startup e) = False"
  "default_adapter (main_startup e) = adapter_default e"
  "killed (main_startup e) = False"
  by (simp_all add: main_startup_def setup_peripheral_def emit_def initial_def Let_def
        split: option.splits)

lemma startup_objects:
  "adapter_default e = Some ad \<Longrightarrow> agent (main_startup e) = Some (new_agent e)"
  "adapter_default e = Some ad \<Longrightarrow> app (main_startup e) = Some (new_application e)"
  "adapter_default e = Some ad \<Longrightarrow>
     advertisement (main_startup e) = Some (new_advertisement e)"
  "adapter_default e = None \<Longrightarrow> agent (main_startup e) = None"
  "adapter_default e = None \<Longrightarrow> app (main_startup e) = None"
  "adapter_default e = None \<Longrightarrow> advertisement (main_startup e) = None"
  "adapter_default e = None \<Longrightarrow> remote_central_cb (main_startup e) = False"
  "adapter_default e = None \<Longrightarrow> powered_state_cb (main_startup e) = False"
  by (simp_all add: main_startup_def setup_peripheral_def emit_def initial_def Let_def)

text \<open>
  When the timeout is the first event, \<open>main\<close> returns 0: the loop starts, the timeout
  runs \<open>callback\<close> on the loop, the loop stops, and \<open>main\<close> releases the loop and the
  connection.
\<close>

lemma main_timeout_exits:
  "main e [Timeout_fired] =
     Exited 0 (emit [G_main_loop_unref (Some (new_loop e)),
                     G_dbus_connection_close_sync (dbus_connection e),
                     G_object_unref (dbus_connection e)]
       ((snd (callback (Some (new_loop e))
          ((emit [G_main_loop_run (Some (new_loop e))] (main_startup e))
             \<lparr>running := True\<rparr>)))
          \<lparr>timeout_source := None\<rparr>))"
proof -
  let ?s1 = "(emit [G_main_loop_run (Some (new_loop e))] (main_startup e))\<lparr>running := True\<rparr>"
  have ts: "timeout_source ?s1 = Some (600, Some (new_loop e))"
    by (simp add: emit_def startup_fields)
  have lp: "loop ?s1 = Some (new_loop e)"
    by (simp add: emit_def startup_fields)
  have run: "g_main_loop_run [Timeout_fired] (main_startup e) = dispatch Timeout_fired ?s1"
    by (simp add: g_main_loop_run_def startup_fields emit_def)
  have kl: "killed ?s1 = False"
    by (simp add: emit_def startup_fields)
  show ?thesis
    unfolding main_def Let_def run dispatch_timeout [OF ts]
    by (simp add: callback_fields lp kl)
qed





text \<open>The session of the examples, inside the loop.\<close>

lemma looping_fields:
  "sigint_handler looping" "timeout_source looping = Some (600, loop looping)"
  "loop looping = Some 2" "agent looping = Some 4" "app looping = Some 6"
  "advertisement looping = Some 5" "default_adapter looping = Some 3" "running looping"
proof -
  have ad: "adapter_default env_powered = Some 3"
    by (simp add: env_powered_def)
  show "sigint_handler looping" "timeout_source looping = Some (600, loop looping)"
    "loop looping = Some 2" "agent looping = Some 4" "app looping = Some 6"
    "advertisement looping = Some 5" "default_adapter looping = Some 3" "running looping"
    by (simp_all add: looping_def started_def emit_def startup_fields
          startup_objects(1-3) [OF ad])
       (simp_all add: env_powered_def)
qed

lemma dropWhile_head:
  "dropWhile P xs = y # ys \<Longrightarrow> \<not> P y"
  using hd_dropWhile [of P xs] by auto

subsection \<open>Advertising follows the central's connection state\<close>

text \<open>
  C1. For every central-state-changed event delivered to \<open>on_central_state_changed\<close>:
  when the Device is Connected the callback issues exactly one advertising call, a
  \<open>stop_advertising\<close> for the session's advertisement on the adapter of the event; when
  it is Disconnected exactly one, a \<open>start_advertising\<close>; when it is Connecting or
  Disconnecting, none. The callback only adds to the record of calls and leaves the
  globals as they were.
\<close>

theorem central_state_toggles_advertising:
  "filter is_advertising_call (issued s (on_central_state_changed adapter device s)) =
     (case connection_state device of
        BINC_CONNECTED \<Rightarrow> [Binc_adapter_stop_advertising adapter (advertisement s)]
      | BINC_DISCONNECTED \<Rightarrow> [Binc_adapter_start_advertising adapter (advertisement s)]
      | BINC_CONNECTING \<Rightarrow> []
      | BINC_DISCONNECTING \<Rightarrow> [])
   \<and> take (length (calls s)) (calls (on_central_state_changed adapter device s)) = calls s
   \<and> globals (on_central_state_changed adapter device s) = globals s"
  by (cases "connection_state device")
     (simp_all add: on_central_state_changed_def binc_device_get_connection_state_def
        issued_def emit_def globals_def Let_def)

subsection \<open>The shutdown sequence\<close>

text \<open>
  C2. The session has a bounded lifetime: \<open>main\<close> registers \<open>callback\<close> on a timeout of
  600 seconds with the loop as its data, and once the timeout fires \<open>main\<close> returns.
  Whatever the state, the calls of one run of \<open>callback\<close> come in the order agent free,
  application unregister, application free, advertising stop, advertisement free, adapter
  free, loop quit, each at most once, and the loop quit is the last. When an adapter was
  found all seven are made, between the start of the loop and the release of the loop and
  of the connection.
\<close>

theorem shutdown_sequence_order:
  "sorted_wrt (<) (map teardown_rank (issued s (snd (callback data s))))
   \<and> last (issued s (snd (callback data s))) = G_main_loop_quit data
   \<and> timeout_source (main_startup e) = Some (600, loop (main_startup e))
   \<and> has_exited (main e [Timeout_fired])
   \<and> (adapter_default e = Some ad \<longrightarrow>
        issued (main_startup e) (final_state (main e [Timeout_fired])) =
          [G_main_loop_run (Some (new_loop e)),
           Binc_agent_free (new_agent e),
           Binc_adapter_unregister_application (Some ad) (new_application e),
           Binc_application_free (new_application e),
           Binc_adapter_stop_advertising (Some ad) (Some (new_advertisement e)),
           Binc_advertisement_free (new_advertisement e),
           Binc_adapter_free ad,
           G_main_loop_quit (Some (new_loop e)),
           G_main_loop_unref (Some (new_loop e)),
           G_dbus_connection_close_sync (dbus_connection e),
           G_object_unref (dbus_connection e)])"
proof -
  have order: "sorted_wrt (<) (map teardown_rank (issued s (snd (callback data s))))"
    by (auto simp add: issued_def callback_calls split: option.splits)
  have quit: "last (issued s (snd (callback data s))) = G_main_loop_quit data"
    by (simp add: issued_def callback_calls split: option.splits)
  have timer: "timeout_source (main_startup e) = Some (600, loop (main_startup e))"
    by (simp add: startup_fields)
  have exits: "has_exited (main e [Timeout_fired])"
    by (simp add: main_timeout_exits)
  have full: "issued (main_startup e) (final_state (main e [Timeout_fired])) =
          [G_main_loop_run (Some (new_loop e)),
           Binc_agent_free (new_agent e),
           Binc_adapter_unregister_application (Some ad) (new_application e),
           Binc_application_free (new_application e),
           Binc_adapter_stop_advertising (Some ad) (Some (new_advertisement e)),
           Binc_advertisement_free (new_advertisement e),
           Binc_adapter_free ad,
           G_main_loop_quit (Some (new_loop e)),
           G_main_loop_unref (Some (new_loop e)),
           G_dbus_connection_close_sync (dbus_connection e),
           G_object_unref (dbus_connection e)]" if found: "adapter_default e = Some ad"
    by (simp add: main_timeout_exits issued_def emit_def callback_calls startup_fields
          startup_objects found)
  from order quit timer exits full show ?thesis by blast
qed

text \<open>C2, at the environment with a powered adapter.\<close>

theorem shutdown_sequence_order_witness:
  "has_exited (main env_powered [Timeout_fired]) \<and>
   issued (main_startup env_powered) (final_state (main env_powered [Timeout_fired])) =
     [G_main_loop_run (Some 2), Binc_agent_free 4,
      Binc_adapter_unregister_application (Some 3) 6, Binc_application_free 6,
      Binc_adapter_stop_advertising (Some 3) (Some 5), Binc_advertisement_free 5,
      Binc_adapter_free 3, G_main_loop_quit (Some 2), G_main_loop_unref (Some 2),
      G_dbus_connection_close_sync (Some 1), G_object_unref (Some 1)]"
  using shutdown_sequence_order [of initial None env_powered 3]
  by (simp add: env_powered_def)

text \<open>
  C3. Running the shutdown sequence a second time is not a no-op. The first run frees the
  advertisement (object 5) and leaves the global pointing at it, so the second run, with
  the adapter already \<open>NULL\<close>, stops advertising on it and frees it again: the objects
  handed to a free function over both runs are 4, 6, 5, 3 and 5 once more.
\<close>

theorem second_shutdown_frees_advertisement_again:
  "advertisement shut_once = Some 5
   \<and> issued started shut_once =
       [Binc_agent_free 4, Binc_adapter_unregister_application (Some 3) 6,
        Binc_application_free 6, Binc_adapter_stop_advertising (Some 3) (Some 5),
        Binc_advertisement_free 5, Binc_adapter_free 3, G_main_loop_quit (Some 2)]
   \<and> issued shut_once shut_twice =
       [Binc_adapter_stop_advertising None (Some 5), Binc_advertisement_free 5,
        G_main_loop_quit (Some 2)]
   \<and> freed (issued started shut_twice) = [4, 6, 5, 3, 5]"
  by (simp add: shut_twice_def shut_once_def started_def issued_def callback_calls
        callback_fields startup_fields startup_objects env_powered_def freed_def)

text \<open>
  C4 (amended). With the handler installed and the timeout source carrying the loop, as
  \<open>main\<close> leaves them, \<open>SIGINT\<close> runs the shutdown the timeout runs: both issue the
  teardown calls of \<open>callback\<close> on the loop, the same calls in the same order, clear the
  same globals and stop the loop. The two runs are not identical: the signal's begins with
  the log line \<open>received SIGINT\<close>, and it leaves the timeout source registered, where
  the timeout's own run ends with GLib removing the source. Nothing else differs.
\<close>

theorem sigint_runs_timeout_shutdown:
  assumes "sigint_handler s" and "timeout_source s = Some (n, loop s)"
  shows "issued s (dispatch Timeout_fired s) =
           (case agent s of Some a \<Rightarrow> [Binc_agent_free a] | None \<Rightarrow> [])
           @ (case app s of
                Some p \<Rightarrow> [Binc_adapter_unregister_application (default_adapter s) p,
                           Binc_application_free p]
              | None \<Rightarrow> [])
           @ (case advertisement s of
                Some v \<Rightarrow> [Binc_adapter_stop_advertising (default_adapter s) (Some v),
                           Binc_advertisement_free v]
              | None \<Rightarrow> [])
           @ (case default_adapter s of Some x \<Rightarrow> [Binc_adapter_free x] | None \<Rightarrow> [])
           @ [G_main_loop_quit (loop s)]
         \<and> issued s (dispatch Sigint_raised s) =
             Log LOG_ERROR TAG ''received SIGINT'' # issued s (dispatch Timeout_fired s)
         \<and> globals (dispatch Timeout_fired s) =
             (loop s, None, advertisement s, None, None, loop s = None \<and> running s)
         \<and> globals (dispatch Sigint_raised s) = globals (dispatch Timeout_fired s)
         \<and> timeout_source (dispatch Timeout_fired s) = None
         \<and> timeout_source (dispatch Sigint_raised s) = Some (n, loop s)
         \<and> dispatch Sigint_raised s =
             (dispatch Timeout_fired s)
               \<lparr>calls := calls s @ Log LOG_ERROR TAG ''received SIGINT''
                           # issued s (dispatch Timeout_fired s),
                timeout_source := Some (n, loop s)\<rparr>"
proof -
  have t: "dispatch Timeout_fired s = (snd (callback (loop s) s))\<lparr>timeout_source := None\<rparr>"
    by (rule dispatch_timeout [OF assms(2)])
  have i: "dispatch Sigint_raised s =
      (snd (callback (loop s) s))
        \<lparr>calls := calls s @ Log LOG_ERROR TAG ''received SIGINT''
                    # issued s (snd (callback (loop s) s))\<rparr>"
    unfolding dispatch_sigint [OF assms(1)] by (simp add: callback_after_emit)
  have it: "issued s (dispatch Timeout_fired s) = issued s (snd (callback (loop s) s))"
    unfolding t by (simp add: issued_def)
  have c1: "issued s (dispatch Timeout_fired s) =
           (case agent s of Some a \<Rightarrow> [Binc_agent_free a] | None \<Rightarrow> [])
           @ (case app s of
                Some p \<Rightarrow> [Binc_adapter_unregister_application (default_adapter s) p,
                           Binc_application_free p]
              | None \<Rightarrow> [])
           @ (case advertisement s of
                Some v \<Rightarrow> [Binc_adapter_stop_advertising (default_adapter s) (Some v),
                           Binc_advertisement_free v]
              | None \<Rightarrow> [])
           @ (case default_adapter s of Some x \<Rightarrow> [Binc_adapter_free x] | None \<Rightarrow> [])
           @ [G_main_loop_quit (loop s)]"
    by (simp only: it callback_issued)
  have c2: "issued s (dispatch Sigint_raised s) =
             Log LOG_ERROR TAG ''received SIGINT'' # issued s (dispatch Timeout_fired s)"
    unfolding it unfolding i by (simp add: issued_def)
  have c3: "globals (dispatch Timeout_fired s) =
             (loop s, None, advertisement s, None, None, loop s = None \<and> running s)"
    unfolding t by (auto simp add: globals_def callback_fields)
  have c4: "globals (dispatch Sigint_raised s) = globals (dispatch Timeout_fired s)"
    unfolding t i by (simp add: globals_def)
  have c5: "timeout_source (dispatch Timeout_fired s) = None"
    unfolding t by simp
  have c6: "timeout_source (dispatch Sigint_raised s) = Some (n, loop s)"
    unfolding i by (simp add: callback_fields assms(2))
  have c7: "dispatch Sigint_raised s =
             (dispatch Timeout_fired s)
               \<lparr>calls := calls s @ Log LOG_ERROR TAG ''received SIGINT''
                           # issued s (dispatch Timeout_fired s),
                timeout_source := Some (n, loop s)\<rparr>"
    unfolding it unfolding i t
    using callback_fields(7) [of "loop s" s] assms(2) by simp
  from c1 c2 c3 c4 c5 c6 c7 show ?thesis by blast
qed

text \<open>C4 (amended), at the session \<open>main\<close> has set up on a powered adapter, in the loop.\<close>

theorem sigint_runs_timeout_shutdown_witness:
  "running looping
   \<and> issued looping (dispatch Timeout_fired looping) =
       [Binc_agent_free 4, Binc_adapter_unregister_application (Some 3) 6,
        Binc_application_free 6, Binc_adapter_stop_advertising (Some 3) (Some 5),
        Binc_advertisement_free 5, Binc_adapter_free 3, G_main_loop_quit (Some 2)]
   \<and> issued looping (dispatch Sigint_raised looping) =
       [Log LOG_ERROR TAG ''received SIGINT'',
        Binc_agent_free 4, Binc_adapter_unregister_application (Some 3) 6,
        Binc_application_free 6, Binc_adapter_stop_advertising (Some 3) (Some 5),
        Binc_advertisement_free 5, Binc_adapter_free 3, G_main_loop_quit (Some 2)]
   \<and> globals (dispatch Sigint_raised looping) = (Some 2, None, Some 5, None, None, False)
   \<and> globals (dispatch Timeout_fired looping) = (Some 2, None, Some 5, None, None, False)"
proof -
  note th = sigint_runs_timeout_shutdown [OF looping_fields(1) looping_fields(2)]
  have a: "issued looping (dispatch Timeout_fired looping) =
       [Binc_agent_free 4, Binc_adapter_unregister_application (Some 3) 6,
        Binc_application_free 6, Binc_adapter_stop_advertising (Some 3) (Some 5),
        Binc_advertisement_free 5, Binc_adapter_free 3, G_main_loop_quit (Some 2)]"
    using th [THEN conjunct1] by (simp add: looping_fields del: dispatch.simps)
  have b: "issued looping (dispatch Sigint_raised looping) =
       Log LOG_ERROR TAG ''received SIGINT'' # issued looping (dispatch Timeout_fired looping)"
    by (rule th [THEN conjunct2, THEN conjunct1])
  have c: "globals (dispatch Timeout_fired looping) = (Some 2, None, Some 5, None, None, False)"
    using th [THEN conjunct2, THEN conjunct2, THEN conjunct1]
    by (simp add: looping_fields del: dispatch.simps)
  have d: "globals (dispatch Sigint_raised looping) = globals (dispatch Timeout_fired looping)"
    by (rule th [THEN conjunct2, THEN conjunct2, THEN conjunct2, THEN conjunct1])
  from a b c d looping_fields(8) show ?thesis
    by (simp del: dispatch.simps)
qed

text \<open>
  C4 as stated fails: in that session the state after \<open>SIGINT\<close> is not the state after
  the timeout. The timeout source is still registered after the one and gone after the
  other, and the signal's calls are the timeout's with a log line before them.
\<close>

theorem sigint_not_identical_counterexample:
  "dispatch Sigint_raised looping \<noteq> dispatch Timeout_fired looping
   \<and> timeout_source (dispatch Sigint_raised looping) = Some (600, Some 2)
   \<and> timeout_source (dispatch Timeout_fired looping) = None
   \<and> issued looping (dispatch Sigint_raised looping) =
       Log LOG_ERROR TAG ''received SIGINT'' # issued looping (dispatch Timeout_fired looping)"
proof -
  have t: "timeout_source (dispatch Timeout_fired looping) = None"
    unfolding dispatch_timeout [OF looping_fields(2)] by simp
  have i: "timeout_source (dispatch Sigint_raised looping) = Some (600, Some 2)"
    unfolding dispatch_sigint [OF looping_fields(1)]
    by (simp add: callback_fields callback_after_emit looping_fields)
  have c: "issued looping (dispatch Sigint_raised looping) =
       Log LOG_ERROR TAG ''received SIGINT'' # issued looping (dispatch Timeout_fired looping)"
    unfolding dispatch_sigint [OF looping_fields(1)] dispatch_timeout [OF looping_fields(2)]
    by (simp add: callback_after_emit) (simp add: issued_def)
  from t i have "dispatch Sigint_raised looping \<noteq> dispatch Timeout_fired looping"
    by auto
  with t i c show ?thesis by simp
qed

subsection \<open>Startup\<close>




text \<open>
  C7 (amended). When no adapter is found, \<open>main\<close> logs \<open>No default_adapter found\<close> and
  creates no agent, advertisement or application, but it does not stop there: it registers
  the timeout and enters the loop. There every event other than the timeout and \<open>SIGINT\<close>
  is ignored, and \<open>main\<close> waits for as long as neither arrives. At the first of the two
  \<open>callback\<close> runs, with nothing to free, and only stops the loop, after which \<open>main\<close>
  releases the loop and the connection and returns 0; except that \<open>SIGINT\<close> terminates
  the process at once when its handler could not be installed.
\<close>

theorem no_adapter_session:
  assumes "adapter_default e = None"
  shows "agent (main_startup e) = None \<and> advertisement (main_startup e) = None
         \<and> app (main_startup e) = None
         \<and> filter is_create_call (calls (main_startup e)) = []
         \<and> filter is_log (calls (main_startup e)) =
             (if signal_ok e then [] else [Log LOG_ERROR TAG ''can't catch SIGINT''])
               @ [Log LOG_DEBUG ''MAIN'' ''No default_adapter found'']
         \<and> last (calls (main_startup e)) =
             G_timeout_add_seconds 600 H_callback (Some (new_loop e))
         \<and> main e evs =
             (case dropWhile (\<lambda>ev. \<not> is_shutdown_event ev) evs of
                [] \<Rightarrow> Waiting (final_state (main e evs))
              | ev # rest \<Rightarrow>
                  if ev = Sigint_raised \<and> \<not> signal_ok e
                  then Killed (final_state (main e evs))
                  else Exited 0 (final_state (main e evs)))
         \<and> issued (main_startup e) (final_state (main e evs)) =
             G_main_loop_run (Some (new_loop e))
             # (case dropWhile (\<lambda>ev. \<not> is_shutdown_event ev) evs of
                  [] \<Rightarrow> []
                | ev # rest \<Rightarrow>
                    if ev = Sigint_raised \<and> \<not> signal_ok e then []
                    else (if ev = Sigint_raised
                          then [Log LOG_ERROR TAG ''received SIGINT''] else [])
                         @ [G_main_loop_quit (Some (new_loop e)),
                            G_main_loop_unref (Some (new_loop e)),
                            G_dbus_connection_close_sync (dbus_connection e),
                            G_object_unref (dbus_connection e)])"
proof -
  let ?L = "Some (new_loop e)"
  let ?s1 = "(emit [G_main_loop_run ?L] (main_startup e))\<lparr>running := True\<rparr>"
  define r where "r = dropWhile (\<lambda>ev. \<not> is_shutdown_event ev) evs"
  have shut: "is_shutdown_event ev" if "r = ev # rest" for ev rest
    using dropWhile_head [of "\<lambda>ev. \<not> is_shutdown_event ev" evs ev rest] that
    by (simp add: r_def)
  have objs: "agent (main_startup e) = None \<and> advertisement (main_startup e) = None
         \<and> app (main_startup e) = None"
    by (simp add: startup_objects assms)
  have created: "filter is_create_call (calls (main_startup e)) = []"
    by (simp add: main_startup_def emit_def initial_def Let_def assms)
  have logged: "filter is_log (calls (main_startup e)) =
             (if signal_ok e then [] else [Log LOG_ERROR TAG ''can't catch SIGINT''])
               @ [Log LOG_DEBUG ''MAIN'' ''No default_adapter found'']"
    by (simp add: main_startup_def emit_def initial_def Let_def assms)
  have timer: "last (calls (main_startup e)) =
      G_timeout_add_seconds 600 H_callback (Some (new_loop e))"
    by (simp add: main_startup_def emit_def initial_def Let_def assms)
  have f: "agent ?s1 = None" "app ?s1 = None" "advertisement ?s1 = None"
    "default_adapter ?s1 = None" "loop ?s1 = ?L" "running ?s1" "\<not> killed ?s1"
    "timeout_source ?s1 = Some (600, ?L)" "sigint_handler ?s1 = signal_ok e"
    "\<not> remote_central_cb ?s1" "\<not> powered_state_cb ?s1"
    "calls ?s1 = calls (main_startup e) @ [G_main_loop_run ?L]"
    by (simp_all add: emit_def startup_fields startup_objects assms)
  have run: "g_main_loop_run evs (main_startup e) = run_loop r ?s1"
    using run_loop_idle [OF f(10) f(11), of evs]
    by (simp add: g_main_loop_run_def startup_fields r_def)
  have tm: "dispatch Timeout_fired ?s1 = (snd (callback ?L ?s1))\<lparr>timeout_source := None\<rparr>"
    by (rule dispatch_timeout [OF f(8)])
  have sg: "signal_ok e \<Longrightarrow> dispatch Sigint_raised ?s1 =
      snd (callback ?L (emit [Log LOG_ERROR TAG ''received SIGINT''] ?s1))"
    using dispatch_sigint [of ?s1] f(9) f(5) by simp
  have kl: "\<not> signal_ok e \<Longrightarrow> dispatch Sigint_raised ?s1 = ?s1\<lparr>killed := True\<rparr>"
    using f(9) by simp
  have both: "main e evs =
             (case r of
                [] \<Rightarrow> Waiting (final_state (main e evs))
              | ev # rest \<Rightarrow>
                  if ev = Sigint_raised \<and> \<not> signal_ok e
                  then Killed (final_state (main e evs))
                  else Exited 0 (final_state (main e evs)))
         \<and> issued (main_startup e) (final_state (main e evs)) =
             G_main_loop_run ?L
             # (case r of
                  [] \<Rightarrow> []
                | ev # rest \<Rightarrow>
                    if ev = Sigint_raised \<and> \<not> signal_ok e then []
                    else (if ev = Sigint_raised
                          then [Log LOG_ERROR TAG ''received SIGINT''] else [])
                         @ [G_main_loop_quit ?L,
                            G_main_loop_unref ?L,
                            G_dbus_connection_close_sync (dbus_connection e),
                            G_object_unref (dbus_connection e)])"
  proof (cases r)
    case Nil
    show ?thesis
      unfolding main_def Let_def run
      by (simp add: Nil f issued_def)
  next
    case (Cons ev rest)
    note shut = shut [OF Cons]
    show ?thesis
    proof (cases ev)
      case Timeout_fired
      have st: "run_loop r ?s1 = dispatch Timeout_fired ?s1"
        unfolding Cons Timeout_fired tm
        by (simp add: f tm callback_fields run_loop_stopped del: dispatch.simps)
      show ?thesis
        unfolding main_def Let_def run st unfolding tm
        by (simp add: Cons Timeout_fired callback_fields callback_calls f issued_def
              emit_fields)
    next
      case Sigint_raised
      show ?thesis
      proof (cases "signal_ok e")
        case True
        have st: "run_loop r ?s1 = dispatch Sigint_raised ?s1"
          unfolding Cons Sigint_raised
          by (simp add: f sg [OF True] callback_fields run_loop_stopped emit_fields
                del: dispatch.simps)
        show ?thesis
          unfolding main_def Let_def run st unfolding sg [OF True]
          by (simp add: Cons Sigint_raised True callback_fields callback_calls f issued_def
                emit_fields)
      next
        case False
        have st: "run_loop r ?s1 = dispatch Sigint_raised ?s1"
          unfolding Cons Sigint_raised
          by (simp add: f kl [OF False] run_loop_stopped del: dispatch.simps)
        show ?thesis
          unfolding main_def Let_def run st unfolding kl [OF False]
          by (simp add: Cons Sigint_raised False f issued_def emit_fields)
      qed
    next
      case (Central_state_changed adapter device)
      with shut show ?thesis by simp
    next
      case (Powered_state_changed adapter st)
      with shut show ?thesis by simp
    qed
  qed
  from objs created logged timer both [unfolded r_def] show ?thesis by blast
qed

text \<open>
  C7 (amended), at the environment with no adapter: waiting on no event, and returning 0
  on \<open>SIGINT\<close> after an event that is ignored.
\<close>

theorem no_adapter_session_witness:
  "main env_no_adapter [] = Waiting (final_state (main env_no_adapter []))
   \<and> main env_no_adapter [Powered_state_changed (Some 3) True, Sigint_raised, Timeout_fired] =
       Exited 0 (final_state (main env_no_adapter
         [Powered_state_changed (Some 3) True, Sigint_raised, Timeout_fired]))
   \<and> issued (main_startup env_no_adapter) (final_state (main env_no_adapter
         [Powered_state_changed (Some 3) True, Sigint_raised, Timeout_fired])) =
       [G_main_loop_run (Some 2), Log LOG_ERROR TAG ''received SIGINT'',
        G_main_loop_quit (Some 2), G_main_loop_unref (Some 2),
        G_dbus_connection_close_sync (Some 1), G_object_unref (Some 1)]
   \<and> filter is_log (calls (main_startup env_no_adapter)) =
       [Log LOG_DEBUG ''MAIN'' ''No default_adapter found'']"
proof -
  have h: "adapter_default env_no_adapter = None"
    by (simp add: env_no_adapter_def)
  have v: "signal_ok env_no_adapter" "new_loop env_no_adapter = 2"
    "dbus_connection env_no_adapter = Some 1"
    by (simp_all add: env_no_adapter_def env_powered_def)
  from no_adapter_session [OF h, of "[]"]
    no_adapter_session [OF h, of "[Powered_state_changed (Some 3) True, Sigint_raised,
      Timeout_fired]"] v
  show ?thesis by simp
qed

text \<open>
  C7 as stated fails: with no adapter and no event yet, \<open>main\<close> has not returned. It has
  registered the timeout of 600 seconds and its last call is \<open>g_main_loop_run\<close>.
\<close>

theorem no_adapter_keeps_running_counterexample:
  "\<not> has_exited (main env_no_adapter [])
   \<and> main env_no_adapter [] = Waiting (final_state (main env_no_adapter []))
   \<and> G_timeout_add_seconds 600 H_callback (Some 2)
       \<in> set (calls (final_state (main env_no_adapter [])))
   \<and> last (calls (final_state (main env_no_adapter []))) = G_main_loop_run (Some 2)"
  by (simp add: main_def g_main_loop_run_def main_startup_def emit_def initial_def Let_def
        env_no_adapter_def env_powered_def)

subsection \<open>Reading the characteristic\<close>

text \<open>
  C6. A read does not return the value that was set. With \<open>[0x01, 0x02]\<close> stored in the
  temperature characteristic, the read callback stores the thirteen fixed bytes over it
  and the read is answered with those. The comment above the callback (lines 66-67) says
  it is there to set the value if it is not set; line 74 sets it whether it is set or not.
\<close>

theorem read_overwrites_stored_value:
  "binc_application_set_char_value hts_application HTS_SERVICE_UUID TEMPERATURE_CHAR_UUID
       [0x01, 0x02] = Inr written_application
   \<and> char_value written_application (HTS_SERVICE_UUID, TEMPERATURE_CHAR_UUID)
       = Some [0x01, 0x02]
   \<and> fst (read_request written_application ''AA:BB:CC:DD:EE:FF'' HTS_SERVICE_UUID
            TEMPERATURE_CHAR_UUID 23 0) = Inr (Some read_bytes)
   \<and> char_value (snd (on_local_char_read written_application ''AA:BB:CC:DD:EE:FF''
            HTS_SERVICE_UUID TEMPERATURE_CHAR_UUID 23 0))
         (HTS_SERVICE_UUID, TEMPERATURE_CHAR_UUID) = Some read_bytes
   \<and> read_bytes \<noteq> [0x01, 0x02]"
  by (simp add: binc_application_set_char_value_def hts_application_def
        written_application_def read_request_def on_local_char_read_def read_bytes_def)

text \<open>
  C9. The read callback lets a read proceed exactly when the service is the health
  thermometer service and the characteristic is the temperature measurement; for every
  other pair of UUIDs it returns the rejection code and leaves the application, and so
  every stored value, as it was.
\<close>

theorem only_temperature_is_served:
  "(fst (on_local_char_read application addr service_uuid char_uuid mtu offset) = None) =
     (service_uuid = HTS_SERVICE_UUID \<and> char_uuid = TEMPERATURE_CHAR_UUID)
   \<and> (\<not> (service_uuid = HTS_SERVICE_UUID \<and> char_uuid = TEMPERATURE_CHAR_UUID) \<longrightarrow>
        on_local_char_read application addr service_uuid char_uuid mtu offset =
          (Some BLUEZ_ERROR_REJECTED, application))"
  by (simp add: on_local_char_read_def split: sum.splits)

text \<open>C9, at a read of the descriptor's UUID in the thermometer service.\<close>

theorem only_temperature_is_served_witness:
  "on_local_char_read written_application ''AA:BB:CC:DD:EE:FF'' HTS_SERVICE_UUID CUD_CHAR 23 0 =
     (Some BLUEZ_ERROR_REJECTED, written_application)"
  using only_temperature_is_served
    [of written_application "''AA:BB:CC:DD:EE:FF''" HTS_SERVICE_UUID CUD_CHAR 23 0]
  by (simp add: CUD_CHAR_def TEMPERATURE_CHAR_UUID_def)

subsection \<open>The agent\<close>

text \<open>
  C8 (amended). The passkey callback returns the integer \<open>fscanf\<close> converted, whatever
  its size. When \<open>fscanf\<close> converted nothing, be it that the input is no integer (it
  returns 0) or that the input has ended (it returns \<open>EOF\<close>), the callback logs
  \<open>didn't read a pin code\<close> and returns 0: it has no separate failure value and checks
  no range. Its only effect is its two or three log lines. The value it returns is the
  value of the reply to the pairing request.
\<close>

theorem passkey_is_scanned_value:
  "on_request_passkey device stdin s =
     ((case stdin of Converted w \<Rightarrow> w | Matching_failure \<Rightarrow> 0 | Input_failure \<Rightarrow> 0),
      emit ([Log LOG_DEBUG TAG ''requesting passkey for '%s'',
             Log LOG_DEBUG TAG ''Enter 6 digit pin code: '']
            @ (case stdin of
                 Converted w \<Rightarrow> []
               | Matching_failure \<Rightarrow> [Log LOG_DEBUG TAG ''didn't read a pin code'']
               | Input_failure \<Rightarrow> [Log LOG_DEBUG TAG ''didn't read a pin code''])) s)
   \<and> fst (fscanf_d stdin old) =
       (case stdin of Converted w \<Rightarrow> 1 | Matching_failure \<Rightarrow> 0 | Input_failure \<Rightarrow> - 1)
   \<and> last (calls (agent_request_passkey device stdin s)) =
       Pairing_reply_passkey (fst (on_request_passkey device stdin s))"
  by (cases stdin)
     (simp_all add: on_request_passkey_def agent_request_passkey_def Let_def emit_def)

text \<open>
  C8 as stated fails: when the user types 1234567, the callback returns 1234567, which is
  no six-digit code.
\<close>

theorem passkey_out_of_range_counterexample:
  "\<not> unat (fst (on_request_passkey central_1 (Converted 1234567) initial)) \<le> 999999"
  by (simp add: on_request_passkey_def Let_def)

text \<open>
  C10. The authorization callback allows every request: whatever the Device (its address,
  name, connection state, bonding state) and whatever the session's state, it returns
  \<open>TRUE\<close>.
\<close>

theorem on_request_authorization_allows:
  "fst (on_request_authorization device s) = True"
  by (simp add: on_request_authorization_def)

end
